theory Spec2Isabelle
  imports Complex_Main
begin

section \<open>The Hull-White model header: fitting parameter and short-rate dynamics\<close>

text \<open>
  The embedding follows \<^verbatim>\<open>ql/ShortRateModels/OneFactorModels/hullwhite.hpp\<close>:
  the inner class \<^verbatim>\<open>HullWhite::FittingParameter::HullWhiteImpl\<close> with its
  method \<^verbatim>\<open>value\<close>, the constructor of \<^verbatim>\<open>HullWhite::FittingParameter\<close>,
  and the class \<^verbatim>\<open>HullWhite::Dynamics\<close> with \<^verbatim>\<open>variable\<close> and
  \<^verbatim>\<open>shortRate\<close>.
\<close>

subsection \<open>The C++ type \<^verbatim>\<open>double\<close>\<close>

text \<open>
  A \<^verbatim>\<open>double\<close> is a finite value, one of the two infinities, or NaN; a finite
  value is carried as a real number and zero has no sign. The operations of this
  subsection give the exact result of an operation on finite operands, before any
  rounding, and the IEEE 754 result on the special values, so that a division by zero
  is a value of the model (an infinity, or NaN for \<open>0/0\<close>) and is not silently given
  HOL's \<open>x / 0 = 0\<close>. A floating-point operation raises no C++ exception.

  The source is read twice below. Read with these exact operations it is the formula
  of its documentation. Read with every operation followed by the rounding of binary64
  it is what the machine computes; rounding and overflow are defined further down.
\<close>

datatype double = Finite real | PlusInf | MinusInf | NaN

text \<open>Unary minus.\<close>

fun dneg :: "double \<Rightarrow> double" where
  "dneg (Finite x) = Finite (- x)"
| "dneg PlusInf = MinusInf"
| "dneg MinusInf = PlusInf"
| "dneg NaN = NaN"

text \<open>\<^verbatim>\<open>QL_EXP\<close>, the exponential of the C library.\<close>

fun QL_EXP :: "double \<Rightarrow> double" where
  "QL_EXP (Finite x) = Finite (exp x)"
| "QL_EXP PlusInf = PlusInf"
| "QL_EXP MinusInf = Finite 0"
| "QL_EXP NaN = NaN"

text \<open>Addition: opposite infinities give NaN.\<close>

fun dadd :: "double \<Rightarrow> double \<Rightarrow> double" where
  "dadd (Finite x) (Finite y) = Finite (x + y)"
| "dadd NaN _ = NaN"
| "dadd _ NaN = NaN"
| "dadd PlusInf MinusInf = NaN"
| "dadd MinusInf PlusInf = NaN"
| "dadd PlusInf _ = PlusInf"
| "dadd _ PlusInf = PlusInf"
| "dadd MinusInf _ = MinusInf"
| "dadd _ MinusInf = MinusInf"

definition dsub :: "double \<Rightarrow> double \<Rightarrow> double" where
  "dsub x y = dadd x (dneg y)"

text \<open>The infinity with the sign of a nonzero real.\<close>

definition inf_of_sign :: "real \<Rightarrow> double" where
  "inf_of_sign s = (if 0 < s then PlusInf else MinusInf)"

text \<open>Multiplication: zero times an infinity is NaN.\<close>

fun dmul :: "double \<Rightarrow> double \<Rightarrow> double" where
  "dmul (Finite x) (Finite y) = Finite (x * y)"
| "dmul NaN _ = NaN"
| "dmul _ NaN = NaN"
| "dmul (Finite x) PlusInf = (if x = 0 then NaN else inf_of_sign x)"
| "dmul (Finite x) MinusInf = (if x = 0 then NaN else inf_of_sign (- x))"
| "dmul PlusInf (Finite y) = (if y = 0 then NaN else inf_of_sign y)"
| "dmul MinusInf (Finite y) = (if y = 0 then NaN else inf_of_sign (- y))"
| "dmul PlusInf PlusInf = PlusInf"
| "dmul MinusInf MinusInf = PlusInf"
| "dmul PlusInf MinusInf = MinusInf"
| "dmul MinusInf PlusInf = MinusInf"

text \<open>
  Division: a nonzero finite value over zero is an infinity, \<open>0/0\<close> and the quotient of
  two infinities are NaN, a finite value over an infinity is zero.
\<close>

fun ddiv :: "double \<Rightarrow> double \<Rightarrow> double" where
  "ddiv (Finite x) (Finite y) =
     (if y \<noteq> 0 then Finite (x / y) else if x = 0 then NaN else inf_of_sign x)"
| "ddiv NaN _ = NaN"
| "ddiv _ NaN = NaN"
| "ddiv (Finite x) PlusInf = Finite 0"
| "ddiv (Finite x) MinusInf = Finite 0"
| "ddiv PlusInf (Finite y) = (if 0 \<le> y then PlusInf else MinusInf)"
| "ddiv MinusInf (Finite y) = (if 0 \<le> y then MinusInf else PlusInf)"
| "ddiv PlusInf PlusInf = NaN"
| "ddiv PlusInf MinusInf = NaN"
| "ddiv MinusInf PlusInf = NaN"
| "ddiv MinusInf MinusInf = NaN"

type_synonym Time = double
type_synonym Rate = double
type_synonym Array = "double list"

subsection \<open>The term structure and the trace of its queries\<close>

text \<open>
  The term structure is an external collaborator reached through a relinkable handle;
  the header uses one member of it, \<^verbatim>\<open>forward(t)\<close>. The whole expression
  \<^verbatim>\<open>termStructure_->forward(t)\<close> is taken as a parameter: it returns a rate or
  throws an exception of the type \<open>'e\<close>.
\<close>

record 'e TermStructure =
  forward :: "Time \<Rightarrow> 'e + Rate"

text \<open>
  An operation returns its outcome together with the forward-rate queries it made on
  the curve, in order: the times it asked for.
\<close>

type_synonym 'a traced = "'a \<times> Time list"

subsection \<open>\<^verbatim>\<open>HullWhite::FittingParameter::HullWhiteImpl\<close>\<close>

text \<open>
  The members \<^verbatim>\<open>termStructure_\<close>, \<^verbatim>\<open>a_\<close> and \<^verbatim>\<open>sigma_\<close>; a name cannot
  end in an underscore here, so the fields carry the prefix \<open>m_\<close> instead.
\<close>

record 'e HullWhiteImpl =
  m_termStructure :: "'e TermStructure"
  m_a :: double
  m_sigma :: double

text \<open>The constructor only initialises the three members.\<close>

definition HullWhiteImpl_new ::
  "'e TermStructure \<Rightarrow> double \<Rightarrow> double \<Rightarrow> 'e HullWhiteImpl traced" where
  "HullWhiteImpl_new termStructure a sigma =
     (\<lparr>m_termStructure = termStructure, m_a = a, m_sigma = sigma\<rparr>, [])"

text \<open>
  The method \<^verbatim>\<open>HullWhiteImpl::value(params, t)\<close>, named \<open>HullWhiteImpl_value\<close>
  here, in exact arithmetic: the forward rate is read first and its exception, if any,
  leaves the method; then \<^verbatim>\<open>temp = sigma_*(1.0 - QL_EXP(-a_*t))/a_\<close> and the result
  \<^verbatim>\<open>forwardRate + 0.5*temp*temp\<close>, with C++'s left-to-right grouping of \<open>*\<close> and \<open>/\<close>.
\<close>

definition HullWhiteImpl_value ::
  "'e HullWhiteImpl \<Rightarrow> Array \<Rightarrow> Time \<Rightarrow> ('e + double) traced" where
  "HullWhiteImpl_value impl params t =
     (case forward (m_termStructure impl) t of
        Inl e \<Rightarrow> (Inl e, [t])
      | Inr forwardRate \<Rightarrow>
          (let temp = ddiv (dmul (m_sigma impl)
                              (dsub (Finite 1) (QL_EXP (dmul (dneg (m_a impl)) t))))
                           (m_a impl)
           in (Inr (dadd forwardRate (dmul (dmul (Finite (1/2)) temp) temp)), [t])))"

subsection \<open>\<^verbatim>\<open>Parameter\<close> and the constructor of \<^verbatim>\<open>HullWhite::FittingParameter\<close>\<close>

text \<open>
  Modelled from the spec: the class \<^verbatim>\<open>Parameter\<close> and its base-class constructor
  \<^verbatim>\<open>TermStructureFittingParameter\<close> are declared in \<^verbatim>\<open>parameter.hpp\<close>, which is
  not among the sources. By the spec a fitting parameter is a function of time closed
  over the curve reference, \<open>a\<close> and \<open>sigma\<close>, with no state beyond that closure and one
  operation, its evaluation at \<open>t\<close>: a parameter holds its implementation and the
  parameter array it passes to it (empty for the fitting parameter), and evaluating it
  at \<open>t\<close> calls the implementation's \<^verbatim>\<open>value(params, t)\<close>. The implementation
  class is abstract in the library; \<^verbatim>\<open>HullWhiteImpl\<close> is the one this header defines.
\<close>

record 'e Parameter =
  m_impl :: "'e HullWhiteImpl"
  m_params :: Array


text \<open>
  \<^verbatim>\<open>FittingParameter(termStructure, a, sigma)\<close> allocates a \<^verbatim>\<open>HullWhiteImpl\<close> from
  its three arguments and hands it to the base class.
\<close>

definition FittingParameter ::
  "'e TermStructure \<Rightarrow> double \<Rightarrow> double \<Rightarrow> 'e Parameter traced" where
  "FittingParameter termStructure a sigma =
     (case HullWhiteImpl_new termStructure a sigma of
        (impl, q) \<Rightarrow> (\<lparr>m_impl = impl, m_params = []\<rparr>, q))"

subsection \<open>\<^verbatim>\<open>HullWhite::Dynamics\<close>\<close>

text \<open>
  The member \<^verbatim>\<open>fitting_\<close>. The constructor also builds an Ornstein-Uhlenbeck process
  from \<open>a\<close> and \<open>sigma\<close> for the base class; \<^verbatim>\<open>variable\<close> and \<^verbatim>\<open>shortRate\<close> do not
  read it, and it is left out of the record.
\<close>

record 'e Dynamics =
  m_fitting :: "'e Parameter"

definition Dynamics_new :: "'e Parameter \<Rightarrow> double \<Rightarrow> double \<Rightarrow> 'e Dynamics" where
  "Dynamics_new fitting a sigma = \<lparr>m_fitting = fitting\<rparr>"



subsection \<open>Rounding to binary64\<close>

text \<open>
  Round to nearest, ties to even, the default rounding of IEEE 754. \<open>rne\<close> rounds a
  real to the nearest integer, the even one of two equally near.
\<close>

definition rne :: "real \<Rightarrow> int" where
  "rne x = (let n = \<lfloor>x\<rfloor>; d = x - of_int n
            in if d < 1/2 then n else if 1/2 < d then n + 1
               else if even n then n else n + 1)"

text \<open>
  The binary exponent of a nonzero real, not below that of the subnormal numbers, and
  the spacing of the doubles around it: 53 significant bits.
\<close>

definition expo :: "real \<Rightarrow> int" where
  "expo x = max \<lfloor>log 2 \<bar>x\<bar>\<rfloor> (- 1022)"

definition ulp :: "real \<Rightarrow> real" where
  "ulp x = 2 powr (of_int (expo x) - 52)"

text \<open>The magnitude rounded to a multiple of the spacing, the exponent unbounded.\<close>

definition round_mag :: "real \<Rightarrow> real" where
  "round_mag x = of_int (rne (\<bar>x\<bar> / ulp x)) * ulp x"

text \<open>A rounded magnitude of \<open>2\<^sup>1\<^sup>0\<^sup>2\<^sup>4\<close> or more overflows to an infinity.\<close>

definition overflow_threshold :: real where
  "overflow_threshold = 2 ^ 1024"

definition binary64 :: "real \<Rightarrow> double" where
  "binary64 x = (if x = 0 then Finite 0
                 else if overflow_threshold \<le> round_mag x then inf_of_sign x
                 else Finite (sgn x * round_mag x))"

text \<open>
  The result of an operation as stored in a \<^verbatim>\<open>double\<close>: a finite exact result is
  rounded by \<open>rnd\<close>, a special value is kept. With \<open>rnd = Finite\<close> nothing is rounded.
\<close>

fun fl :: "(real \<Rightarrow> double) \<Rightarrow> double \<Rightarrow> double" where
  "fl rnd (Finite x) = rnd x"
| "fl rnd PlusInf = PlusInf"
| "fl rnd MinusInf = MinusInf"
| "fl rnd NaN = NaN"

subsection \<open>The same methods with every operation rounded\<close>

text \<open>
  \<^verbatim>\<open>HullWhiteImpl::value\<close> once more, each arithmetic operation and the call of
  \<^verbatim>\<open>QL_EXP\<close> followed by the rounding \<open>rnd\<close>. The unary minus is exact in binary
  floating point and the constants \<open>1.0\<close> and \<open>0.5\<close> are doubles. The exponential is
  taken as correctly rounded.
\<close>

definition HullWhiteImpl_value_rnd ::
  "(real \<Rightarrow> double) \<Rightarrow> 'e HullWhiteImpl \<Rightarrow> Array \<Rightarrow> Time \<Rightarrow> ('e + double) traced" where
  "HullWhiteImpl_value_rnd rnd impl params t =
     (case forward (m_termStructure impl) t of
        Inl e \<Rightarrow> (Inl e, [t])
      | Inr forwardRate \<Rightarrow>
          (let temp = fl rnd (ddiv (fl rnd (dmul (m_sigma impl)
                         (fl rnd (dsub (Finite 1)
                            (fl rnd (QL_EXP (fl rnd (dmul (dneg (m_a impl)) t))))))))
                       (m_a impl))
           in (Inr (fl rnd (dadd forwardRate
                      (fl rnd (dmul (fl rnd (dmul (Finite (1/2)) temp)) temp)))), [t])))"

text \<open>\<^verbatim>\<open>Parameter::operator()\<close>, \<^verbatim>\<open>variable\<close> and \<^verbatim>\<open>shortRate\<close> with rounding.\<close>

definition Parameter_call_rnd ::
  "(real \<Rightarrow> double) \<Rightarrow> 'e Parameter \<Rightarrow> Time \<Rightarrow> ('e + double) traced" where
  "Parameter_call_rnd rnd p t = HullWhiteImpl_value_rnd rnd (m_impl p) (m_params p) t"

definition variable_rnd ::
  "(real \<Rightarrow> double) \<Rightarrow> 'e Dynamics \<Rightarrow> Time \<Rightarrow> Rate \<Rightarrow> ('e + double) traced" where
  "variable_rnd rnd d t r =
     (case Parameter_call_rnd rnd (m_fitting d) t of
        (Inl e, q) \<Rightarrow> (Inl e, q)
      | (Inr phi, q) \<Rightarrow> (Inr (fl rnd (dsub r phi)), q))"

definition shortRate_rnd ::
  "(real \<Rightarrow> double) \<Rightarrow> 'e Dynamics \<Rightarrow> Time \<Rightarrow> double \<Rightarrow> ('e + double) traced" where
  "shortRate_rnd rnd d t x =
     (case Parameter_call_rnd rnd (m_fitting d) t of
        (Inl e, q) \<Rightarrow> (Inl e, q)
      | (Inr phi, q) \<Rightarrow> (Inr (fl rnd (dadd x phi)), q))"

subsection \<open>A curve for the concrete evaluations\<close>

text \<open>
  A flat curve: the same forward rate at every time from \<open>0\<close> to its horizon, and an
  exception for any other time.
\<close>

definition flat_curve :: "real \<Rightarrow> real \<Rightarrow> string TermStructure" where
  "flat_curve rate horizon =
     \<lparr>forward = (\<lambda>t. case t of
          Finite s \<Rightarrow> if 0 \<le> s \<and> s \<le> horizon then Inr (Finite rate)
                      else Inl ''time is outside the curve''
        | _ \<Rightarrow> Inl ''time is outside the curve'')\<rparr>"

section \<open>Properties\<close>

subsection \<open>Evaluation of the fitting parameter on finite inputs\<close>


lemma value_zero_speed:
  assumes "forward ts (Finite t) = Inr f"
  shows "HullWhiteImpl_value \<lparr>m_termStructure = ts, m_a = Finite 0, m_sigma = Finite s\<rparr>
           params (Finite t) = (Inr NaN, [Finite t])"
  using assms by (cases f) (simp_all add: HullWhiteImpl_value_def dsub_def)

lemma flat_curve_inside:
  "0 \<le> t \<Longrightarrow> t \<le> horizon \<Longrightarrow> forward (flat_curve rate horizon) (Finite t) = Inr (Finite rate)"
  by (simp add: flat_curve_def)

lemma bracket_limit:
  "((\<lambda>a::real. (1 - exp (- a * t)) / a) \<longlongrightarrow> t) (at_right 0)"
proof -
  have "((\<lambda>a. 1 - exp (- a * t)) has_field_derivative t) (at 0 within {0<..})"
    by (auto intro!: derivative_eq_intros)
  from has_field_derivativeD [OF this] show ?thesis by simp
qed

lemma phi_limit:
  "((\<lambda>a::real. f + 1/2 * (s * (1 - exp (- a * t)) / a)\<^sup>2) \<longlongrightarrow> f + 1/2 * (s * t)\<^sup>2)
     (at_right 0)"
proof -
  have "((\<lambda>a::real. f + 1/2 * (s * ((1 - exp (- a * t)) / a))\<^sup>2) \<longlongrightarrow> f + 1/2 * (s * t)\<^sup>2)
          (at_right 0)"
    by (intro tendsto_intros bracket_limit)
  then show ?thesis by simp
qed

subsection \<open>Rounding: integers and exponents\<close>

lemma rne_of_int: "rne (of_int n) = n"
  by (simp add: rne_def)

lemma rne_bounds: "of_int (rne x) \<le> x + 1/2" "x - 1/2 \<le> of_int (rne x)"
  unfolding rne_def Let_def by (auto simp: ) linarith+

lemma rne_err: "\<bar>of_int (rne x) - x\<bar> \<le> 1/2"
  using rne_bounds[of x] by linarith




lemma rne_half_up:
  assumes "of_int n - 1/2 \<le> x" and "x \<le> of_int n + 1/2" and "even n"
  shows "rne x = n"
proof -
  consider "x < of_int n" | "of_int n \<le> x" "x < of_int n + 1/2" | "x = of_int n + 1/2"
    using assms(2) by linarith
  then show ?thesis
  proof cases
    case 1
    with assms(1) have f: "\<lfloor>x\<rfloor> = n - 1" by (simp add: floor_eq_iff)
    show ?thesis
    proof (cases "x = of_int n - 1/2")
      case True
      with f assms(3) show ?thesis by (simp add: rne_def)
    next
      case False
      with assms(1) have "of_int n - 1/2 < x" by simp
      with f show ?thesis by (simp add: rne_def)
    qed
  next
    case 2
    then have f: "\<lfloor>x\<rfloor> = n" by (simp add: floor_eq_iff)
    with 2 show ?thesis by (simp add: rne_def)
  next
    case 3
    then have f: "\<lfloor>x\<rfloor> = n" by (simp add: floor_eq_iff)
    with 3 assms(3) show ?thesis by (simp add: rne_def)
  qed
qed

lemma ulp_pos: "0 < ulp x"
  by (simp add: ulp_def)

lemma expo_ge: "- 1022 \<le> expo x"
  by (simp add: expo_def)


lemma expo_lower: assumes "x \<noteq> 0" and "- 1022 < expo x" shows "2 powr (of_int (expo x)) \<le> \<bar>x\<bar>"
proof -
  from assms(2) have "expo x = \<lfloor>log 2 \<bar>x\<bar>\<rfloor>" by (simp add: expo_def max_def split: if_splits)
  then have "of_int (expo x) \<le> log 2 \<bar>x\<bar>" by simp
  with assms(1) show ?thesis by (simp add: le_log_iff)
qed


lemma expo_eq:
  assumes "2 powr (of_int e) \<le> \<bar>x\<bar>" and "\<bar>x\<bar> < 2 powr (of_int e + 1)" and "- 1022 \<le> e"
  shows "expo x = e"
proof -
  have pos: "0 < \<bar>x\<bar>" using assms(1) by (rule less_le_trans [rotated]) simp
  from assms(1) pos have "of_int e \<le> log 2 \<bar>x\<bar>" by (simp add: le_log_iff)
  moreover from assms(2) pos have "log 2 \<bar>x\<bar> < of_int e + 1" by (simp add: log_less_iff)
  ultimately have "\<lfloor>log 2 \<bar>x\<bar>\<rfloor> = e" by (simp add: floor_eq_iff)
  with assms(3) show ?thesis by (simp add: expo_def)
qed


lemma two_powr_53: "(2::real) powr 53 = of_int (2 ^ 53)" and two_powr_52: "(2::real) powr 52 = of_int (2 ^ 52)"
  by simp_all

lemma ulp_half: "ulp x / 2 = 2 powr (of_int (expo x)) * 2 powr (- 53)"
proof -
  have "2 powr (of_int (expo x)) * 2 powr (- 53) * (2::real)
          = 2 powr (of_int (expo x)) * 2 powr (- 53) * 2 powr 1"
    by simp
  also have "\<dots> = 2 powr (of_int (expo x) + (- 53) + 1)"
    by (simp only: powr_add)
  also have "of_int (expo x) + (- 53) + 1 = (of_int (expo x) - 52 :: real)" by simp
  finally show ?thesis unfolding ulp_def by simp
qed

lemma ulp_half_le:
  assumes "x \<noteq> 0"
  shows "ulp x / 2 \<le> \<bar>x\<bar> * 2 powr (- 53) + 2 powr (- 1022) * 2 powr (- 53)"
proof (cases "- 1022 < expo x")
  case True
  have "ulp x / 2 = 2 powr (of_int (expo x)) * 2 powr (- 53)" by (rule ulp_half)
  also have "\<dots> \<le> \<bar>x\<bar> * 2 powr (- 53)"
    using expo_lower [OF assms True] by (intro mult_right_mono) simp_all
  finally show ?thesis by (simp add: add_increasing2)
next
  case False
  with expo_ge [of x] have "expo x = - 1022" by linarith
  then have "ulp x / 2 = 2 powr (- 1022) * 2 powr (- 53)"
    by (simp only: ulp_half) simp
  then show ?thesis by simp
qed

subsection \<open>Rounding: the rounded magnitude\<close>


lemma round_mag_err: "\<bar>round_mag x - \<bar>x\<bar>\<bar> \<le> ulp x / 2"
proof -
  have "round_mag x - \<bar>x\<bar> = (of_int (rne (\<bar>x\<bar> / ulp x)) - \<bar>x\<bar> / ulp x) * ulp x"
    using ulp_pos [of x] by (simp add: round_mag_def left_diff_distrib)
  then have "\<bar>round_mag x - \<bar>x\<bar>\<bar> = \<bar>of_int (rne (\<bar>x\<bar> / ulp x)) - \<bar>x\<bar> / ulp x\<bar> * ulp x"
    using ulp_pos [of x] by (simp add: abs_mult)
  also have "\<dots> \<le> 1/2 * ulp x"
    by (intro mult_right_mono rne_err) (simp add: ulp_pos less_imp_le)
  finally show ?thesis by simp
qed

lemma round_mag_rel_err: 
  assumes "x \<noteq> 0"
  shows "\<bar>round_mag x - \<bar>x\<bar>\<bar> \<le> \<bar>x\<bar> * 2 powr (- 53) + 2 powr (- 1022) * 2 powr (- 53)"
  using round_mag_err [of x] ulp_half_le [OF assms] by linarith




lemma round_mag_repr:
  assumes m: "\<bar>m\<bar> < 2 ^ 53" and k: "- 1074 \<le> k"
  shows "round_mag (of_int m * 2 powr (of_int k)) = \<bar>of_int m * 2 powr (of_int k)\<bar>"
proof (cases "m = 0")
  case True
  then show ?thesis by (simp add: round_mag_def rne_of_int [of 0, simplified])
next
  case False
  define x :: real where "x = of_int m * 2 powr (of_int k)"
  have nz: "x \<noteq> 0" using False by (simp add: x_def)
  have ax: "\<bar>x\<bar> = of_int \<bar>m\<bar> * 2 powr (of_int k)"
    by (simp add: x_def abs_mult)
  have "of_int \<bar>m\<bar> < (of_int (2 ^ 53) :: real)"
    using m by (simp only: of_int_less_iff)
  then have "\<bar>x\<bar> < 2 powr 53 * 2 powr (of_int k)"
    unfolding ax two_powr_53 by (intro mult_strict_right_mono) simp_all
  then have "\<bar>x\<bar> < 2 powr (53 + of_int k)"
    by (simp only: powr_add)
  with nz have "log 2 \<bar>x\<bar> < 53 + of_int k"
    by (simp add: log_less_iff)
  then have "log 2 \<bar>x\<bar> < of_int (k + 53)"
    by simp
  then have "\<lfloor>log 2 \<bar>x\<bar>\<rfloor> < k + 53"
    by (simp only: floor_less_iff)
  with k have e: "expo x \<le> k + 52"
    by (simp add: expo_def)
  define n where "n = nat (k + 52 - expo x)"
  have n: "of_int k - (of_int (expo x) - 52) = (real n)"
    using e by (simp add: n_def)
  have "\<bar>x\<bar> / ulp x = of_int \<bar>m\<bar> * (2 powr (of_int k) / 2 powr (of_int (expo x) - 52))"
    by (simp add: ax ulp_def)
  also have "2 powr (of_int k) / 2 powr (of_int (expo x) - 52) = (2::real) powr (real n)"
    by (simp only: powr_diff [symmetric] n)
  also have "\<dots> = 2 ^ n"
    by (simp add: powr_realpow)
  finally have q: "\<bar>x\<bar> / ulp x = of_int (\<bar>m\<bar> * 2 ^ n)"
    by simp
  have "round_mag x = (\<bar>x\<bar> / ulp x) * ulp x"
    unfolding round_mag_def by (simp only: q rne_of_int)
  also have "\<dots> = \<bar>x\<bar>"
    using ulp_pos [of x] by simp
  finally show ?thesis by (simp only: x_def)
qed

subsection \<open>Rounding: properties of binary64\<close>

lemma binary64_zero: "binary64 0 = Finite 0"
  by (simp add: binary64_def)

lemma binary64_err:
  assumes "binary64 z = Finite y"
  shows "\<bar>y - z\<bar> \<le> \<bar>z\<bar> * 2 powr (- 53) + 2 powr (- 1022) * 2 powr (- 53)"
proof (cases "z = 0")
  case True
  with assms show ?thesis by (simp add: binary64_zero)
next
  case False
  with assms have y: "y = sgn z * round_mag z"
    by (simp add: binary64_def inf_of_sign_def split: if_splits)
  have "\<bar>y - z\<bar> = \<bar>round_mag z - \<bar>z\<bar>\<bar>"
    unfolding y using False by (cases "0 < z") (simp_all add: sgn_if)
  with round_mag_rel_err [OF False] show ?thesis by simp
qed

lemma binary64_finite:
  assumes "\<bar>z\<bar> \<le> 2 powr 1023"
  shows "\<exists>y. binary64 z = Finite y"
proof (cases "z = 0")
  case True
  then show ?thesis by (simp add: binary64_zero)
next
  case False
  have "(2::real) powr (- 1022) * 2 powr (- 53) \<le> 1"
    by (simp add: powr_neg_numeral)
  moreover have "\<bar>z\<bar> * 2 powr (- 53) \<le> \<bar>z\<bar> * (1/2)"
    by (intro mult_left_mono) (simp_all add: powr_neg_numeral)
  moreover note round_mag_rel_err [OF False] assms
  moreover have "(2::real) powr 1023 * (3/2) + 1 < overflow_threshold"
    by (simp add: overflow_threshold_def)
  ultimately have "round_mag z < overflow_threshold" by linarith
  with False show ?thesis by (simp add: binary64_def)
qed





lemma binary64_repr:
  assumes "\<bar>m\<bar> < 2 ^ 53" and "- 1074 \<le> k"
    and "\<bar>of_int m * 2 powr (of_int k) :: real\<bar> < overflow_threshold"
  shows "binary64 (of_int m * 2 powr (of_int k)) = Finite (of_int m * 2 powr (of_int k))"
proof -
  have "sgn x * \<bar>x\<bar> = x" for x :: real
    by (simp add: sgn_if)
  with assms(3) show ?thesis
    unfolding binary64_def round_mag_repr [OF assms(1,2)] by simp
qed

lemma binary64_int:
  assumes "\<bar>m\<bar> < 2 ^ 53"
  shows "binary64 (of_int m) = Finite (of_int m)"
proof -
  have "\<bar>of_int m :: real\<bar> < of_int (2 ^ 53)"
    using assms by (simp only: of_int_abs [symmetric] of_int_less_iff)
  then have "\<bar>of_int m * 2 powr (of_int 0) :: real\<bar> < overflow_threshold"
    by (simp add: overflow_threshold_def)
  from binary64_repr [OF assms _ this] show ?thesis by simp
qed

lemma binary64_one: "binary64 1 = Finite 1"
  using binary64_int [of 1] by simp

lemma binary64_sixteenth: "binary64 (1/16) = Finite (1/16)"
proof -
  have e: "of_int 1 * 2 powr (of_int (- 4)) = (1/16 :: real)"
    by (simp add: powr_neg_numeral)
  have "binary64 (of_int 1 * 2 powr (of_int (- 4))) = Finite (of_int 1 * 2 powr (of_int (- 4)))"
    by (rule binary64_repr) (simp_all add: powr_neg_numeral overflow_threshold_def)
  then show ?thesis by (simp only: e)
qed


lemma binary64_near_one:
  assumes "1 - 2 powr (- 54) \<le> z" and "z \<le> 1 + 2 powr (- 53)"
  shows "binary64 z = Finite 1"
proof -
  have c: "(2::real) powr (- 54) = 1 / 2 ^ 54" "(2::real) powr (- 53) = 1 / 2 ^ 53"
    by (simp_all add: powr_neg_numeral)
  have pos: "0 < z" using assms(1) by (simp add: c)
  have "round_mag z = 1"
  proof (cases "1 \<le> z")
    case True
    have "expo z = 0"
      by (rule expo_eq) (use True assms(2) pos in \<open>simp_all add: c\<close>)
    then have u: "ulp z = 1 / 2 ^ 52"
      by (simp add: ulp_def powr_neg_numeral)
    have "rne (\<bar>z\<bar> / ulp z) = 2 ^ 52"
      by (rule rne_half_up) (use True assms(2) pos in \<open>simp_all add: u c field_simps\<close>)
    then show ?thesis by (simp add: round_mag_def u)
  next
    case False
    have "expo z = - 1"
      by (rule expo_eq) (use False assms(1) pos in \<open>simp_all add: c powr_neg_numeral\<close>)
    then have u: "ulp z = 1 / 2 ^ 53"
      by (simp add: ulp_def powr_neg_numeral)
    have "rne (\<bar>z\<bar> / ulp z) = 2 ^ 53"
      by (rule rne_half_up) (use False assms(1) pos in \<open>simp_all add: u c field_simps\<close>)
    then show ?thesis by (simp add: round_mag_def u)
  qed
  with pos show ?thesis by (simp add: binary64_def overflow_threshold_def)
qed

lemma binary64_small:
  assumes "\<bar>z\<bar> \<le> 2 powr (- 56)"
  shows "\<exists>w. binary64 z = Finite w \<and> \<bar>w\<bar> \<le> 2 powr (- 55)"
proof -
  have c: "(2::real) powr (- 55) = 1 / 2 ^ 55" "(2::real) powr (- 56) = 1 / 2 ^ 56"
    "(2::real) powr (- 53) = 1 / 2 ^ 53" "(2::real) powr (- 1022) = 1 / 2 ^ 1022"
    by (simp_all add: powr_neg_numeral)
  from assms have "\<bar>z\<bar> \<le> 2 powr 1023" by (simp add: c)
  from binary64_finite [OF this] obtain w where w: "binary64 z = Finite w" by blast
  have "\<bar>z\<bar> * 2 powr (- 53) \<le> \<bar>z\<bar> * 1"
    by (intro mult_left_mono) (simp_all add: c)
  with binary64_err [OF w] assms have "\<bar>w\<bar> \<le> 2 powr (- 55)"
    by (simp add: c)
  with w show ?thesis by blast
qed

subsection \<open>The rounded methods\<close>

lemma fl_exact: "fl Finite d = d"
  by (cases d) simp_all

lemma value_rnd_exact: "HullWhiteImpl_value_rnd Finite impl params t = HullWhiteImpl_value impl params t"
  by (simp add: HullWhiteImpl_value_rnd_def HullWhiteImpl_value_def fl_exact split: sum.split)

lemma exp_near_one:
  assumes "\<bar>w :: real\<bar> \<le> 2 powr (- 55)"
  shows "1 - 2 powr (- 54) \<le> exp w" and "exp w \<le> 1 + 2 powr (- 53)"
proof -
  have c: "(2::real) powr (- 55) = 1 / 2 ^ 55" "(2::real) powr (- 54) = 1 / 2 ^ 54"
    "(2::real) powr (- 53) = 1 / 2 ^ 53"
    by (simp_all add: powr_neg_numeral)
  from assms have "1 - 2 powr (- 54) \<le> 1 + w" by (simp add: c)
  also have "1 + w \<le> exp w" by (rule exp_ge_add_one_self)
  finally show "1 - 2 powr (- 54) \<le> exp w" .
  show "exp w \<le> 1 + 2 powr (- 53)"
  proof (cases "0 \<le> w")
    case True
    with assms have w1: "w \<le> 1" and w: "w \<le> 1 / 2 ^ 55" by (simp_all add: c)
    have "w\<^sup>2 \<le> w * 1" unfolding power2_eq_square using True w1 by (intro mult_left_mono) simp_all
    with w have "1 + w + w\<^sup>2 \<le> 1 + 2 powr (- 53)" by (simp add: c)
    with exp_bound [OF True w1] show ?thesis by linarith
  next
    case False
    then have "exp w \<le> 1" by simp
    moreover have "(1::real) \<le> 1 + 2 powr (- 53)" by simp
    ultimately show ?thesis by linarith
  qed
qed


lemma value_rnd_cancels:
  assumes fwd: "forward ts (Finite t) = Inr (Finite f)"
    and repr: "binary64 f = Finite f"
    and a: "a \<noteq> 0"
    and small: "\<bar>a * t\<bar> \<le> 2 powr (- 56)"
  shows "HullWhiteImpl_value_rnd binary64
           \<lparr>m_termStructure = ts, m_a = Finite a, m_sigma = Finite s\<rparr> params (Finite t)
         = (Inr (Finite f), [Finite t])"
proof -
  from small have "\<bar>- (a * t)\<bar> \<le> 2 powr (- 56)" by simp
  from binary64_small [OF this] obtain w
    where w: "binary64 (- (a * t)) = Finite w" and ws: "\<bar>w\<bar> \<le> 2 powr (- 55)" by blast
  from exp_near_one [OF ws] have e: "binary64 (exp w) = Finite 1"
    by (rule binary64_near_one)
  show ?thesis
    using fwd a
    by (simp add: HullWhiteImpl_value_rnd_def dsub_def w e binary64_zero repr)
qed

lemma value_rnd_zero_speed:
  assumes fwd: "forward ts (Finite t) = Inr f"
  shows "HullWhiteImpl_value_rnd binary64
           \<lparr>m_termStructure = ts, m_a = Finite 0, m_sigma = Finite s\<rparr> params (Finite t)
         = (Inr NaN, [Finite t])"
  using fwd
  by (cases f) (simp_all add: HullWhiteImpl_value_rnd_def dsub_def binary64_zero binary64_one)


lemma value_rnd_eventually:
  assumes fwd: "forward ts (Finite t) = Inr (Finite f)"
    and repr: "binary64 f = Finite f"
  shows "eventually (\<lambda>a. HullWhiteImpl_value_rnd binary64
                      \<lparr>m_termStructure = ts, m_a = Finite a, m_sigma = Finite s\<rparr> params (Finite t)
                    = (Inr (Finite f), [Finite t])) (at_right 0)"
proof (rule eventually_at_rightI)
  show "(0::real) < 2 powr (- 56) / (\<bar>t\<bar> + 1)" by simp
next
  fix a :: real
  assume "a \<in> {0 <..< 2 powr (- 56) / (\<bar>t\<bar> + 1)}"
  then have a: "0 < a" and b: "a < 2 powr (- 56) / (\<bar>t\<bar> + 1)" by simp_all
  from b have "a * (\<bar>t\<bar> + 1) < 2 powr (- 56)" by (simp add: pos_less_divide_eq)
  moreover have "a * \<bar>t\<bar> \<le> a * (\<bar>t\<bar> + 1)" using a by (intro mult_left_mono) simp_all
  ultimately have "a * \<bar>t\<bar> \<le> 2 powr (- 56)" by linarith
  then have "\<bar>a * t\<bar> \<le> 2 powr (- 56)" using a by (simp add: abs_mult)
  with a show "HullWhiteImpl_value_rnd binary64
                 \<lparr>m_termStructure = ts, m_a = Finite a, m_sigma = Finite s\<rparr> params (Finite t)
               = (Inr (Finite f), [Finite t])"
    by (intro value_rnd_cancels [OF fwd repr]) simp_all
qed




lemma rounded_transform:
  assumes "fst (Parameter_call_rnd rnd (m_fitting d) t) = Inr (Finite phi)"
  shows "fst (shortRate_rnd rnd d t (Finite x)) = Inr (rnd (x + phi))"
    and "fst (variable_rnd rnd d t (Finite r)) = Inr (rnd (r - phi))"
  using assms
  by (cases "Parameter_call_rnd rnd (m_fitting d) t";
      simp add: variable_rnd_def shortRate_rnd_def dsub_def)+

lemma round_trip_bound:
  assumes small: "\<bar>x\<bar> + \<bar>p\<bar> \<le> 2 powr 1000"
  shows "\<exists>s r. binary64 (x + p) = Finite s \<and> binary64 (s - p) = Finite r
               \<and> \<bar>r - x\<bar> \<le> (\<bar>x\<bar> + \<bar>p\<bar>) / 2 ^ 51 + 1 / 2 ^ 1073"
proof -
  define u :: real where "u = 2 powr (- 53)"
  define h :: real where "h = 2 powr (- 1022) * 2 powr (- 53)"
  have u: "0 \<le> u" "u \<le> 1" and h: "0 \<le> h"
    by (simp_all add: u_def h_def powr_neg_numeral)
  have uv: "u = 1 / 2 ^ 53" and hv: "h = 1 / 2 ^ 1075"
    by (simp_all add: u_def h_def powr_neg_numeral)
  have big: "(2::real) powr 1000 * 4 + 2 \<le> 2 powr 1023" "0 \<le> (2::real) powr 1000" by simp_all
  have xp: "\<bar>x + p\<bar> \<le> \<bar>x\<bar> + \<bar>p\<bar>" by simp
  with small big have "\<bar>x + p\<bar> \<le> 2 powr 1023" by linarith
  from binary64_finite [OF this] obtain s where s: "binary64 (x + p) = Finite s" by blast
  from binary64_err [OF s] have es: "\<bar>s - (x + p)\<bar> \<le> \<bar>x + p\<bar> * u + h"
    by (simp only: u_def h_def)
  have "\<bar>x + p\<bar> * u \<le> \<bar>x + p\<bar> * 1" using u by (intro mult_left_mono) simp_all
  then have xpu: "\<bar>x + p\<bar> * u \<le> \<bar>x + p\<bar>" by simp
  from es xp have sp: "\<bar>s - p\<bar> \<le> \<bar>x\<bar> + (\<bar>x + p\<bar> * u + h)" by linarith
  have "h \<le> 1" by (simp add: hv)
  moreover have "0 \<le> \<bar>p\<bar>" "0 \<le> \<bar>x\<bar>" by simp_all
  ultimately have "\<bar>s - p\<bar> \<le> 2 powr 1023"
    using sp small xp big xpu by linarith
  from binary64_finite [OF this] obtain r where r: "binary64 (s - p) = Finite r" by blast
  from binary64_err [OF r] have er: "\<bar>r - (s - p)\<bar> \<le> \<bar>s - p\<bar> * u + h"
    by (simp only: u_def h_def)
  define A where "A = \<bar>x + p\<bar> * u + h"
  have A0: "0 \<le> A" using u h by (simp add: A_def)
  have "\<bar>s - p\<bar> * u \<le> (\<bar>x\<bar> + A) * u"
    using sp u unfolding A_def by (intro mult_right_mono) simp_all
  also have "\<dots> = \<bar>x\<bar> * u + A * u" by (simp add: distrib_right)
  also have "A * u \<le> A * 1" using A0 u by (intro mult_left_mono) simp_all
  finally have su: "\<bar>s - p\<bar> * u \<le> \<bar>x\<bar> * u + A" by simp
  have "\<bar>x + p\<bar> * u \<le> (\<bar>x\<bar> + \<bar>p\<bar>) * u" using xp u by (intro mult_right_mono) simp_all
  then have A1: "A \<le> (\<bar>x\<bar> + \<bar>p\<bar>) * u + h" by (simp add: A_def)
  have "\<bar>x\<bar> * u \<le> (\<bar>x\<bar> + \<bar>p\<bar>) * u" using u by (intro mult_right_mono) simp_all
  with es er su A1 have "\<bar>r - x\<bar> \<le> 3 * ((\<bar>x\<bar> + \<bar>p\<bar>) * u) + 3 * h"
    unfolding A_def by linarith
  also have "\<dots> \<le> 4 * ((\<bar>x\<bar> + \<bar>p\<bar>) * u) + 4 * h"
    using u h by simp
  also have "\<dots> = (\<bar>x\<bar> + \<bar>p\<bar>) / 2 ^ 51 + 1 / 2 ^ 1073"
    by (simp add: uv hv)
  finally show ?thesis using s r by blast
qed

lemma fitting_at_zero:
  "Parameter_call_rnd binary64
     (m_fitting (Dynamics_new
        (fst (FittingParameter (flat_curve 1 30) (Finite (1/10)) (Finite (1/100))))
        (Finite (1/10)) (Finite (1/100))))
     (Finite 0) = (Inr (Finite 1), [Finite 0])"
proof -
  have f: "forward (flat_curve 1 30) (Finite 0) = Inr (Finite 1)"
    by (simp add: flat_curve_inside)
  have "HullWhiteImpl_value_rnd binary64
          \<lparr>m_termStructure = flat_curve 1 30, m_a = Finite (1/10), m_sigma = Finite (1/100)\<rparr>
          [] (Finite 0) = (Inr (Finite 1), [Finite 0])"
    by (rule value_rnd_cancels [OF f binary64_one]) simp_all
  then show ?thesis
    by (simp add: Dynamics_new_def FittingParameter_def HullWhiteImpl_new_def
        Parameter_call_rnd_def)
qed

lemma no_limit:
  assumes ev: "eventually (\<lambda>a. g a = Inr (Finite f)) (at_right (0::real))"
    and neq: "L \<noteq> f"
  shows "\<not> (\<exists>phi. (\<forall>a>0. g a = Inr (Finite (phi a))) \<and> (phi \<longlongrightarrow> L) (at_right 0))"
proof
  assume "\<exists>phi. (\<forall>a>0. g a = Inr (Finite (phi a))) \<and> (phi \<longlongrightarrow> L) (at_right 0)"
  then obtain phi where eq: "\<forall>a>0. g a = Inr (Finite (phi a))"
    and lim: "(phi \<longlongrightarrow> L) (at_right 0)" by blast
  have pos: "eventually (\<lambda>a::real. 0 < a) (at_right 0)"
    by (rule eventually_at_rightI [of 0 1]) simp_all
  from ev pos have "eventually (\<lambda>a. phi a = f) (at_right 0)"
  proof eventually_elim
    case (elim a)
    with eq show ?case by auto
  qed
  then have "(phi \<longlongrightarrow> f) (at_right 0)"
    by (rule tendsto_eventually)
  from tendsto_unique [OF _ lim this] neq show False by simp
qed

subsection \<open>The value of the fitting parameter\<close>



subsection \<open>The dynamics transform\<close>



text \<open>
  Claim C3, as the spec states it, fails in double arithmetic: the round trip is not
  exact. With a fitting parameter that evaluates to \<open>phi = 1\<close> (a flat curve of rate
  \<open>1\<close>, \<open>t = 0\<close>) and \<open>x = 2\<^sup>-\<^sup>6\<^sup>0\<close>, \<open>shortRate(0, x)\<close> is \<open>1 + 2\<^sup>-\<^sup>6\<^sup>0\<close> rounded, which
  is \<open>1\<close>, and \<open>variable(0, 1)\<close> is \<open>1 - 1 = 0\<close>, not \<open>x\<close>. And with \<open>a = 0\<close> the fitting
  parameter is NaN and so is \<open>shortRate(0, 1)\<close>.
\<close>

theorem inverse_law_counterexample:
  "fst (shortRate_rnd binary64
          (Dynamics_new
             (fst (FittingParameter (flat_curve 1 30) (Finite (1/10)) (Finite (1/100))))
             (Finite (1/10)) (Finite (1/100)))
          (Finite 0) (Finite (1 / 2 ^ 60))) = Inr (Finite 1)
   \<and> fst (variable_rnd binary64
          (Dynamics_new
             (fst (FittingParameter (flat_curve 1 30) (Finite (1/10)) (Finite (1/100))))
             (Finite (1/10)) (Finite (1/100)))
          (Finite 0) (Finite 1)) = Inr (Finite 0)
   \<and> (0::real) \<noteq> 1 / 2 ^ 60
   \<and> fst (shortRate_rnd binary64
          (Dynamics_new
             (fst (FittingParameter (flat_curve 1 30) (Finite 0) (Finite (1/100))))
             (Finite 0) (Finite (1/100)))
          (Finite 0) (Finite 1)) = Inr NaN"
proof -
  let ?d = "Dynamics_new
             (fst (FittingParameter (flat_curve 1 30) (Finite (1/10)) (Finite (1/100))))
             (Finite (1/10)) (Finite (1/100))"
  have p: "fst (Parameter_call_rnd binary64 (m_fitting ?d) (Finite 0)) = Inr (Finite 1)"
    by (simp only: fitting_at_zero fst_conv)
  have "binary64 (1 / 2 ^ 60 + 1) = Finite 1"
    by (rule binary64_near_one) (simp_all add: powr_neg_numeral)
  moreover have "binary64 (1 - 1) = Finite 0"
    by (simp add: binary64_zero)
  ultimately have "fst (shortRate_rnd binary64 ?d (Finite 0) (Finite (1 / 2 ^ 60))) = Inr (Finite 1)"
    and "fst (variable_rnd binary64 ?d (Finite 0) (Finite 1)) = Inr (Finite 0)"
    using rounded_transform(1) [OF p, of "1 / 2 ^ 60"] rounded_transform(2) [OF p, of 1]
    by simp_all
  moreover have "forward (flat_curve 1 30) (Finite 0) = Inr (Finite 1)"
    by (simp add: flat_curve_inside)
  from value_rnd_zero_speed [OF this, of "1/100" "[]"]
  have "fst (shortRate_rnd binary64
          (Dynamics_new
             (fst (FittingParameter (flat_curve 1 30) (Finite 0) (Finite (1/100))))
             (Finite 0) (Finite (1/100)))
          (Finite 0) (Finite 1)) = Inr NaN"
    by (simp add: shortRate_rnd_def Parameter_call_rnd_def Dynamics_new_def
        FittingParameter_def HullWhiteImpl_new_def)
  ultimately show ?thesis by simp
qed

text \<open>
  Claim C3, amended. Where the fitting parameter held by the dynamics object evaluates
  at \<open>t\<close> to a finite value \<open>phi\<close>, \<^verbatim>\<open>variable\<close> and \<^verbatim>\<open>shortRate\<close> are mutual
  inverses at \<open>t\<close> up to the rounding of the two double operations: for reals \<open>x\<close> and
  \<open>r\<close> with \<open>\<bar>x\<bar> + \<bar>phi\<bar>\<close> and \<open>\<bar>r\<bar> + \<bar>phi\<bar>\<close> at most \<open>2\<^sup>1\<^sup>0\<^sup>0\<^sup>0\<close>, both round trips
  return finite values, \<open>variable(t, shortRate(t, x))\<close> differs from \<open>x\<close> by at most
  \<open>(\<bar>x\<bar> + \<bar>phi\<bar>) / 2\<^sup>5\<^sup>1 + 2\<^sup>-\<^sup>1\<^sup>0\<^sup>7\<^sup>3\<close>, and \<open>shortRate(t, variable(t, r))\<close> differs from
  \<open>r\<close> by at most \<open>(\<bar>r\<bar> + \<bar>phi\<bar>) / 2\<^sup>5\<^sup>1 + 2\<^sup>-\<^sup>1\<^sup>0\<^sup>7\<^sup>3\<close>.
\<close>

theorem dynamics_inverse_rounded:
  assumes phi: "fst (Parameter_call_rnd binary64 (m_fitting d) t) = Inr (Finite phi)"
    and x: "\<bar>x\<bar> + \<bar>phi\<bar> \<le> 2 powr 1000"
    and r: "\<bar>r\<bar> + \<bar>phi\<bar> \<le> 2 powr 1000"
  shows "(\<exists>s y. fst (shortRate_rnd binary64 d t (Finite x)) = Inr (Finite s)
              \<and> fst (variable_rnd binary64 d t (Finite s)) = Inr (Finite y)
              \<and> \<bar>y - x\<bar> \<le> (\<bar>x\<bar> + \<bar>phi\<bar>) / 2 ^ 51 + 1 / 2 ^ 1073)
       \<and> (\<exists>s y. fst (variable_rnd binary64 d t (Finite r)) = Inr (Finite s)
              \<and> fst (shortRate_rnd binary64 d t (Finite s)) = Inr (Finite y)
              \<and> \<bar>y - r\<bar> \<le> (\<bar>r\<bar> + \<bar>phi\<bar>) / 2 ^ 51 + 1 / 2 ^ 1073)"
proof
  from round_trip_bound [OF x] obtain s y
    where "binary64 (x + phi) = Finite s" "binary64 (s - phi) = Finite y"
      "\<bar>y - x\<bar> \<le> (\<bar>x\<bar> + \<bar>phi\<bar>) / 2 ^ 51 + 1 / 2 ^ 1073" by blast
  then show "\<exists>s y. fst (shortRate_rnd binary64 d t (Finite x)) = Inr (Finite s)
              \<and> fst (variable_rnd binary64 d t (Finite s)) = Inr (Finite y)
              \<and> \<bar>y - x\<bar> \<le> (\<bar>x\<bar> + \<bar>phi\<bar>) / 2 ^ 51 + 1 / 2 ^ 1073"
    using rounded_transform [OF phi] by auto
next
  from r have "\<bar>r\<bar> + \<bar>- phi\<bar> \<le> 2 powr 1000" by simp
  from round_trip_bound [OF this] obtain s y
    where "binary64 (r - phi) = Finite s" "binary64 (s + phi) = Finite y"
      "\<bar>y - r\<bar> \<le> (\<bar>r\<bar> + \<bar>phi\<bar>) / 2 ^ 51 + 1 / 2 ^ 1073" by auto
  then show "\<exists>s y. fst (variable_rnd binary64 d t (Finite r)) = Inr (Finite s)
              \<and> fst (shortRate_rnd binary64 d t (Finite s)) = Inr (Finite y)
              \<and> \<bar>y - r\<bar> \<le> (\<bar>r\<bar> + \<bar>phi\<bar>) / 2 ^ 51 + 1 / 2 ^ 1073"
    using rounded_transform [OF phi] by auto
qed

theorem dynamics_inverse_rounded_witness:
  "fst (Parameter_call_rnd binary64
          (m_fitting (Dynamics_new
             (fst (FittingParameter (flat_curve 1 30) (Finite (1/10)) (Finite (1/100))))
             (Finite (1/10)) (Finite (1/100))))
          (Finite 0)) = Inr (Finite 1)
   \<and> \<bar>1/4 :: real\<bar> + \<bar>1\<bar> \<le> 2 powr 1000
   \<and> \<bar>3 :: real\<bar> + \<bar>1\<bar> \<le> 2 powr 1000
   \<and> (\<exists>s y. fst (shortRate_rnd binary64 (Dynamics_new
             (fst (FittingParameter (flat_curve 1 30) (Finite (1/10)) (Finite (1/100))))
             (Finite (1/10)) (Finite (1/100))) (Finite 0) (Finite (1/4))) = Inr (Finite s)
          \<and> fst (variable_rnd binary64 (Dynamics_new
             (fst (FittingParameter (flat_curve 1 30) (Finite (1/10)) (Finite (1/100))))
             (Finite (1/10)) (Finite (1/100))) (Finite 0) (Finite s)) = Inr (Finite y)
          \<and> \<bar>y - 1/4\<bar> \<le> (\<bar>1/4\<bar> + \<bar>1\<bar>) / 2 ^ 51 + 1 / 2 ^ 1073)
   \<and> (\<exists>s y. fst (variable_rnd binary64 (Dynamics_new
             (fst (FittingParameter (flat_curve 1 30) (Finite (1/10)) (Finite (1/100))))
             (Finite (1/10)) (Finite (1/100))) (Finite 0) (Finite 3)) = Inr (Finite s)
          \<and> fst (shortRate_rnd binary64 (Dynamics_new
             (fst (FittingParameter (flat_curve 1 30) (Finite (1/10)) (Finite (1/100))))
             (Finite (1/10)) (Finite (1/100))) (Finite 0) (Finite s)) = Inr (Finite y)
          \<and> \<bar>y - 3\<bar> \<le> (\<bar>3\<bar> + \<bar>1\<bar>) / 2 ^ 51 + 1 / 2 ^ 1073)"
proof -
  let ?d = "Dynamics_new
             (fst (FittingParameter (flat_curve 1 30) (Finite (1/10)) (Finite (1/100))))
             (Finite (1/10)) (Finite (1/100))"
  have p: "fst (Parameter_call_rnd binary64 (m_fitting ?d) (Finite 0)) = Inr (Finite 1)"
    by (simp only: fitting_at_zero fst_conv)
  have x: "\<bar>1/4 :: real\<bar> + \<bar>1\<bar> \<le> 2 powr 1000" and r: "\<bar>3 :: real\<bar> + \<bar>1\<bar> \<le> 2 powr 1000"
    by simp_all
  from dynamics_inverse_rounded [OF p x r] p x r show ?thesis by blast
qed

subsection \<open>The mean-reversion speed at and near zero\<close>

text \<open>
  Claim C4, as the spec states it, fails: \<^verbatim>\<open>value\<close> has no branch for a speed at or
  near zero. With \<open>a = 0\<close>, \<open>sigma = 0.01\<close> and \<open>t = 1\<close> on a flat curve of 5 per cent
  the numerator \<open>sigma * (1 - exp (- 0 * 1))\<close> is \<open>0\<close>, the division is the literal
  \<open>0 / 0\<close>, and the result is NaN, not \<open>0.05 + 0.5 * (0.01 * 1)\<^sup>2\<close>.
\<close>

theorem zero_speed_counterexample:
  "fst (HullWhiteImpl_value \<lparr>m_termStructure = flat_curve (5/100) 30, m_a = Finite 0,
                m_sigma = Finite (1/100)\<rparr> [] (Finite 1)) = Inr NaN
   \<and> fst (HullWhiteImpl_value \<lparr>m_termStructure = flat_curve (5/100) 30, m_a = Finite 0,
                  m_sigma = Finite (1/100)\<rparr> [] (Finite 1))
       \<noteq> Inr (Finite (5/100 + 1/2 * (1/100 * 1)\<^sup>2))"
proof -
  have "forward (flat_curve (5/100) 30) (Finite 1) = Inr (Finite (5/100))"
    by (simp add: flat_curve_inside)
  from value_zero_speed [OF this, of "1/100" "[]"] show ?thesis by simp
qed

text \<open>
  Claim C4, amended. Evaluating the fitting parameter divides by the captured \<open>a\<close>
  with no guard and no limiting case: at \<open>a = 0\<close>, for every finite \<open>sigma\<close> and \<open>t\<close> at
  which the curve returns a rate, the division is the literal \<open>0 / 0\<close> and the result is
  NaN, in exact arithmetic and with every operation rounded alike.
\<close>

theorem zero_speed_is_nan:
  assumes "forward ts (Finite t) = Inr f"
  shows "fst (HullWhiteImpl_value \<lparr>m_termStructure = ts, m_a = Finite 0, m_sigma = Finite sigma\<rparr>
                params (Finite t)) = Inr NaN
         \<and> fst (HullWhiteImpl_value_rnd binary64
                  \<lparr>m_termStructure = ts, m_a = Finite 0, m_sigma = Finite sigma\<rparr>
                  params (Finite t)) = Inr NaN"
  using value_zero_speed [OF assms, of sigma params] value_rnd_zero_speed [OF assms, of sigma params]
  by simp

theorem zero_speed_is_nan_witness:
  "forward (flat_curve (5/100) 30) (Finite 2) = Inr (Finite (5/100))
   \<and> fst (HullWhiteImpl_value \<lparr>m_termStructure = flat_curve (5/100) 30, m_a = Finite 0,
                  m_sigma = Finite (3/100)\<rparr> [] (Finite 2)) = Inr NaN
   \<and> fst (HullWhiteImpl_value_rnd binary64
            \<lparr>m_termStructure = flat_curve (5/100) 30, m_a = Finite 0,
               m_sigma = Finite (3/100)\<rparr> [] (Finite 2)) = Inr NaN"
proof -
  have h: "forward (flat_curve (5/100) 30) (Finite 2) = Inr (Finite (5/100))"
    by (simp add: flat_curve_inside)
  from zero_speed_is_nan [OF h, of "3/100" "[]"] h show ?thesis by blast
qed

subsection \<open>The limit of a vanishing mean-reversion speed\<close>

text \<open>
  Claim C5, as the spec states it, fails for the value that is computed: once
  \<open>a * t\<close> is below \<open>2\<^sup>-\<^sup>5\<^sup>6\<close> the exponential rounds to \<open>1\<close>, \<open>1.0 - QL_EXP(-a_*t)\<close> is \<open>0\<close>
  and the value is the forward rate itself. On a flat curve of rate \<open>1/16\<close> with
  \<open>sigma = 1/8\<close> and \<open>t = 1\<close> the value at \<open>a = 2\<^sup>-\<^sup>6\<^sup>0\<close> is exactly \<open>1/16\<close>, and the
  computed values do not converge to \<open>1/16 + 0.5 * (1/8 * 1)\<^sup>2\<close> as \<open>a\<close> tends to \<open>0\<close>
  from above.
\<close>

theorem limit_counterexample:
  "fst (HullWhiteImpl_value_rnd binary64
          \<lparr>m_termStructure = flat_curve (1/16) 30, m_a = Finite (1 / 2 ^ 60),
             m_sigma = Finite (1/8)\<rparr> [] (Finite 1)) = Inr (Finite (1/16))
   \<and> \<not> (\<exists>phi. (\<forall>a>0. fst (HullWhiteImpl_value_rnd binary64
                              \<lparr>m_termStructure = flat_curve (1/16) 30, m_a = Finite a,
                                 m_sigma = Finite (1/8)\<rparr> [] (Finite 1))
                         = Inr (Finite (phi a)))
                \<and> (phi \<longlongrightarrow> 1/16 + 1/2 * (1/8 * 1)\<^sup>2) (at_right 0))"
proof -
  have f: "forward (flat_curve (1/16) 30) (Finite 1) = Inr (Finite (1/16))"
    by (simp add: flat_curve_inside)
  have "HullWhiteImpl_value_rnd binary64
          \<lparr>m_termStructure = flat_curve (1/16) 30, m_a = Finite (1 / 2 ^ 60),
             m_sigma = Finite (1/8)\<rparr> [] (Finite 1) = (Inr (Finite (1/16)), [Finite 1])"
    by (rule value_rnd_cancels [OF f binary64_sixteenth]) (simp_all add: powr_neg_numeral)
  moreover have "eventually (\<lambda>a. fst (HullWhiteImpl_value_rnd binary64
                              \<lparr>m_termStructure = flat_curve (1/16) 30, m_a = Finite a,
                                 m_sigma = Finite (1/8)\<rparr> [] (Finite 1))
                         = Inr (Finite (1/16))) (at_right 0)"
    using value_rnd_eventually [OF f binary64_sixteenth, of "1/8" "[]"]
    by (rule eventually_mono) simp
  then have "\<not> (\<exists>phi. (\<forall>a>0. fst (HullWhiteImpl_value_rnd binary64
                              \<lparr>m_termStructure = flat_curve (1/16) 30, m_a = Finite a,
                                 m_sigma = Finite (1/8)\<rparr> [] (Finite 1))
                         = Inr (Finite (phi a)))
                \<and> (phi \<longlongrightarrow> 1/16 + 1/2 * (1/8 * 1)\<^sup>2) (at_right 0))"
    by (rule no_limit) (simp add: power2_eq_square)
  ultimately show ?thesis by simp
qed

text \<open>
  Claim C5, amended. For fixed \<open>t\<close> and \<open>sigma\<close> and a forward rate \<open>f\<close> held fixed (a
  double), the formula \<open>f + 0.5 * (sigma * (1 - exp (- a * t)) / a)\<^sup>2\<close> converges in
  exact arithmetic to \<open>f + 0.5 * (sigma * t)\<^sup>2\<close> as \<open>a\<close> tends to \<open>0\<close> from above; the
  double that the fitting parameter computes does not follow it: for every small enough
  \<open>a > 0\<close> it is exactly \<open>f\<close>.
\<close>

theorem fitting_value_small_speed:
  assumes "forward ts (Finite t) = Inr (Finite f)" and "binary64 f = Finite f"
  shows "eventually (\<lambda>a. fst (HullWhiteImpl_value_rnd binary64
                              \<lparr>m_termStructure = ts, m_a = Finite a, m_sigma = Finite sigma\<rparr>
                              params (Finite t)) = Inr (Finite f)) (at_right 0)
         \<and> ((\<lambda>a. f + 1/2 * (sigma * (1 - exp (- a * t)) / a)\<^sup>2)
               \<longlongrightarrow> f + 1/2 * (sigma * t)\<^sup>2) (at_right 0)"
proof
  show "eventually (\<lambda>a. fst (HullWhiteImpl_value_rnd binary64
                              \<lparr>m_termStructure = ts, m_a = Finite a, m_sigma = Finite sigma\<rparr>
                              params (Finite t)) = Inr (Finite f)) (at_right 0)"
    using value_rnd_eventually [OF assms, of sigma params]
    by (rule eventually_mono) simp
  show "((\<lambda>a. f + 1/2 * (sigma * (1 - exp (- a * t)) / a)\<^sup>2)
           \<longlongrightarrow> f + 1/2 * (sigma * t)\<^sup>2) (at_right 0)"
    by (rule phi_limit)
qed

theorem fitting_value_small_speed_witness:
  "forward (flat_curve (1/16) 30) (Finite 2) = Inr (Finite (1/16))
   \<and> binary64 (1/16) = Finite (1/16)
   \<and> eventually (\<lambda>a. fst (HullWhiteImpl_value_rnd binary64
                            \<lparr>m_termStructure = flat_curve (1/16) 30, m_a = Finite a,
                               m_sigma = Finite (1/4)\<rparr> [] (Finite 2))
                       = Inr (Finite (1/16))) (at_right 0)
   \<and> ((\<lambda>a::real. 1/16 + 1/2 * (1/4 * (1 - exp (- a * 2)) / a)\<^sup>2)
         \<longlongrightarrow> 1/16 + 1/2 * (1/4 * 2)\<^sup>2) (at_right 0)"
proof -
  have h: "forward (flat_curve (1/16) 30) (Finite 2) = Inr (Finite (1/16))"
    by (simp add: flat_curve_inside)
  from fitting_value_small_speed [OF h binary64_sixteenth, of "1/4" "[]"] h binary64_sixteenth
  show ?thesis by blast
qed

subsection \<open>How the evaluation fails\<close>

text \<open>
  Claim C7. Evaluating the fitting parameter at \<open>t\<close> throws the exception \<open>e\<close> exactly
  when the term structure's forward query at \<open>t\<close> throws \<open>e\<close>: the curve's failure is the
  only failure of the evaluation and it reaches the caller unchanged.
\<close>

theorem value_fails_iff_forward_fails:
  "fst (HullWhiteImpl_value impl params t) = Inl e \<longleftrightarrow> forward (m_termStructure impl) t = Inl e"
  by (simp add: HullWhiteImpl_value_def Let_def split: sum.split)

text \<open>
  On a flat curve that ends at 30 the evaluation at \<open>t = 31\<close> throws the curve's
  exception.
\<close>

theorem value_fails_iff_forward_fails_witness:
  "fst (HullWhiteImpl_value \<lparr>m_termStructure = flat_curve (5/100) 30, m_a = Finite (1/10),
                             m_sigma = Finite (1/100)\<rparr> [] (Finite 31))
     = Inl ''time is outside the curve''"
proof -
  have "forward (flat_curve (5/100) 30) (Finite 31) = Inl ''time is outside the curve''"
    by (simp add: flat_curve_def)
  with value_fails_iff_forward_fails
         [of "\<lparr>m_termStructure = flat_curve (5/100) 30, m_a = Finite (1/10),
               m_sigma = Finite (1/100)\<rparr>" "[]" "Finite 31" "''time is outside the curve''"]
  show ?thesis by simp
qed

subsection \<open>The parameter array\<close>

text \<open>
  Claim C9. The result of \<^verbatim>\<open>value\<close> does not depend on the parameter array: for the
  same implementation object and the same \<open>t\<close>, any two arrays give the same outcome
  (and the same curve queries).
\<close>

theorem value_ignores_params:
  "HullWhiteImpl_value impl p1 t = HullWhiteImpl_value impl p2 t"
  by (simp add: HullWhiteImpl_value_def)

subsection \<open>The sign of the convexity adjustment\<close>




end
